theory Spec2Isabelle
  imports Complex_Main "HOL-Library.Word"
begin

unbundle bit_operations_syntax

section \<open>The environment of \<open>model_chess.py\<close>\<close>

text \<open>
  The module \<open>chess_zero/agent/model_chess.py\<close> talks to four things it does not
  define: the local file system (\<open>os.path.exists\<close>, \<open>open\<close>), the hash library
  (\<open>hashlib.sha256\<close>), the serialisers of the learning framework (\<open>json\<close>,
  \<open>Model.get_config\<close>, \<open>Model.from_config\<close>, \<open>save_weights\<close>, \<open>load_weights\<close>) and
  an FTP server (\<open>ftplib\<close>). Each is made explicit here: the file system is a finite map
  from paths to the bytes of regular, readable files; SHA-256 is the function of
  FIPS 180-4; the framework is a record of functions that every definition takes as a
  parameter; the server is a record saying which step of a session succeeds.
\<close>

type_synonym path = string
type_synonym bytes = "8 word list"
type_synonym filesystem = "path \<rightharpoonup> bytes"

text \<open>Exceptions are values: an operation returns normally or raises.\<close>

datatype error = JSONDecodeError | ValueError | OSError | AttributeError | TypeError

datatype 'a outcome = Return 'a | Raise error

text \<open>
  The framework as the module uses it. \<open>'g\<close> is a graph with its weights (a Keras
  \<open>Model\<close>), \<open>'j\<close> the dictionary \<open>get_config\<close> returns. A function that can raise
  returns \<open>None\<close> where it does.
\<close>

record ('g, 'j, 'x, 'y) framework =
  json_dumps :: "'j \<Rightarrow> bytes"
  json_loads :: "bytes \<Rightarrow> 'j option"
  get_config :: "'g \<Rightarrow> 'j"
  from_config :: "'j \<Rightarrow> 'g option"
  save_weights :: "'g \<Rightarrow> bytes"
  load_weights :: "'g \<Rightarrow> bytes \<Rightarrow> 'g option"
  predict :: "'g \<Rightarrow> 'x \<Rightarrow> 'y"

text \<open>
  \<open>json.load(f)\<close>: an empty document is not JSON (\<open>JSONDecodeError: Expecting value\<close>),
  whatever the decoder does with other documents.
\<close>

definition json_load :: "('g, 'j, 'x, 'y) framework \<Rightarrow> bytes \<Rightarrow> 'j option" where
  "json_load F doc = (if doc = [] then None else json_loads F doc)"

subsection \<open>SHA-256\<close>

text \<open>
  \<open>hashlib.sha256\<close> fed the whole file in one \<open>update\<close>, and \<open>hexdigest\<close>: the
  message is padded to a multiple of 64 bytes, cut into blocks of sixteen big-endian
  32-bit words, and each block is compressed into the state of eight words; the digest
  is the final state in lower-case hexadecimal.
\<close>

definition rotr :: "nat \<Rightarrow> 32 word \<Rightarrow> 32 word" where
  "rotr n x = drop_bit n x OR push_bit (32 - n) x"

definition sha_K :: "32 word list" where
  "sha_K =
     [0x428A2F98, 0x71374491, 0xB5C0FBCF, 0xE9B5DBA5, 0x3956C25B, 0x59F111F1,
      0x923F82A4, 0xAB1C5ED5, 0xD807AA98, 0x12835B01, 0x243185BE, 0x550C7DC3,
      0x72BE5D74, 0x80DEB1FE, 0x9BDC06A7, 0xC19BF174, 0xE49B69C1, 0xEFBE4786,
      0x0FC19DC6, 0x240CA1CC, 0x2DE92C6F, 0x4A7484AA, 0x5CB0A9DC, 0x76F988DA,
      0x983E5152, 0xA831C66D, 0xB00327C8, 0xBF597FC7, 0xC6E00BF3, 0xD5A79147,
      0x06CA6351, 0x14292967, 0x27B70A85, 0x2E1B2138, 0x4D2C6DFC, 0x53380D13,
      0x650A7354, 0x766A0ABB, 0x81C2C92E, 0x92722C85, 0xA2BFE8A1, 0xA81A664B,
      0xC24B8B70, 0xC76C51A3, 0xD192E819, 0xD6990624, 0xF40E3585, 0x106AA070,
      0x19A4C116, 0x1E376C08, 0x2748774C, 0x34B0BCB5, 0x391C0CB3, 0x4ED8AA4A,
      0x5B9CCA4F, 0x682E6FF3, 0x748F82EE, 0x78A5636F, 0x84C87814, 0x8CC70208,
      0x90BEFFFA, 0xA4506CEB, 0xBEF9A3F7, 0xC67178F2]"

definition sha_H0 :: "32 word list" where
  "sha_H0 =
     [0x6A09E667, 0xBB67AE85, 0x3C6EF372, 0xA54FF53A,
      0x510E527F, 0x9B05688C, 0x1F83D9AB, 0x5BE0CD19]"

definition pad :: "bytes \<Rightarrow> bytes" where
  "pad msg =
     msg @ [0x80] @ replicate ((119 - length msg mod 64) mod 64) 0
       @ map (\<lambda>i. ucast (drop_bit (8 * (7 - i)) (word_of_nat (8 * length msg) :: 64 word)))
           [0..<8]"

fun be32 :: "bytes \<Rightarrow> 32 word list" where
  "be32 (a # b # c # d # rest) =
     (push_bit 24 (ucast a) OR push_bit 16 (ucast b) OR push_bit 8 (ucast c) OR ucast d)
       # be32 rest"
| "be32 _ = []"

fun schedule :: "nat \<Rightarrow> 32 word list \<Rightarrow> 32 word list" where
  "schedule 0 ws = ws"
| "schedule (Suc n) ws =
     (let t = length ws;
          w2 = ws ! (t - 2); w15 = ws ! (t - 15);
          s0 = rotr 7 w15 XOR rotr 18 w15 XOR drop_bit 3 w15;
          s1 = rotr 17 w2 XOR rotr 19 w2 XOR drop_bit 10 w2
      in schedule n (ws @ [s1 + ws ! (t - 7) + s0 + ws ! (t - 16)]))"

fun round_step :: "32 word list \<Rightarrow> 32 word \<times> 32 word \<Rightarrow> 32 word list" where
  "round_step [a, b, c, d, e, f, g, h] (k, w) =
     (let S1 = rotr 6 e XOR rotr 11 e XOR rotr 25 e;
          ch = (e AND f) XOR (NOT e AND g);
          t1 = h + S1 + ch + k + w;
          S0 = rotr 2 a XOR rotr 13 a XOR rotr 22 a;
          mj = (a AND b) XOR (a AND c) XOR (b AND c);
          t2 = S0 + mj
      in [t1 + t2, a, b, c, d + t1, e, f, g])"
| "round_step st _ = st"

definition compress :: "32 word list \<Rightarrow> 32 word list \<Rightarrow> 32 word list" where
  "compress st block =
     map2 (+) st (foldl round_step st (zip sha_K (schedule 48 block)))"

fun blocks :: "32 word list \<Rightarrow> 32 word list list" where
  "blocks ws = (if length ws < 16 then [] else take 16 ws # blocks (drop 16 ws))"

declare blocks.simps [simp del]

definition hex32 :: "32 word \<Rightarrow> string" where
  "hex32 x = map (\<lambda>i. ''0123456789abcdef'' ! unat (drop_bit (4 * (7 - i)) x AND 15)) [0..<8]"

definition sha256_hexdigest :: "bytes \<Rightarrow> string" where
  "sha256_hexdigest msg = concat (map hex32 (foldl compress sha_H0 (blocks (be32 (pad msg)))))"

subsection \<open>Configuration\<close>

text \<open>
  \<open>Config\<close> lives in \<open>chess_zero/config.py\<close>; the fields below are the ones this module
  reads (\<open>self.config.model\<close>, \<open>self.config.resource\<close>, \<open>self.config.n_labels\<close>). The
  two sections are the fields \<open>cfg_model\<close> and \<open>cfg_resource\<close>, since \<open>model\<close> names the
  attribute \<open>self.model\<close> below.
\<close>

record model_config =
  cnn_filter_num :: int
  cnn_first_filter_size :: int
  cnn_filter_size :: int
  res_layer_num :: int
  l2_reg :: real
  value_fc_size :: int
  distributed :: bool

record resource_config =
  model_best_config_path :: path
  model_best_weight_path :: path
  model_best_distributed_ftp_server :: string
  model_best_distributed_ftp_user :: string
  model_best_distributed_ftp_password :: string
  model_best_distributed_ftp_remote_path :: string

record config =
  cfg_model :: model_config
  cfg_resource :: resource_config
  n_labels :: int

subsection \<open>The FTP server\<close>

text \<open>
  What the module does with \<open>ftplib\<close>: log in, change directory, retrieve or store a
  file by name, quit. Each call can raise (a failing \<open>quit\<close> is the last call of its
  block and changes nothing). A server says whether it accepts a login,
  which directories it has, which files the directory holds, whether it takes uploads,
  and after how many bytes a data connection breaks (\<open>None\<close>: it does not).
\<close>

record ftp_server =
  accepts :: "string \<Rightarrow> string \<Rightarrow> string \<Rightarrow> bool"
  directories :: "string \<Rightarrow> bool"
  remote_files :: "string \<rightharpoonup> bytes"
  writable :: bool
  link_breaks_after :: "nat option"

datatype ftp_command =
  LOGIN string string string | CWD string | RETR string | STOR string | QUIT

text \<open>
  The world outside the model object: the local files, the server, and the commands
  sent to the server so far.
\<close>

record world =
  fs :: filesystem
  server :: ftp_server
  ftp_log :: "ftp_command list"

definition os_path_exists :: "filesystem \<Rightarrow> path \<Rightarrow> bool" where
  "os_path_exists files p = (files p \<noteq> None)"

text \<open>
  \<open>retrbinary(cmd, callback)\<close>: the bytes handed to the callback, and whether the call
  returned (\<open>True\<close>) or raised. A file the server does not have is refused before any
  data; a broken connection raises after the bytes that got through.
\<close>

definition retrbinary :: "ftp_server \<Rightarrow> string \<Rightarrow> bytes \<times> bool" where
  "retrbinary srv name =
     (case remote_files srv name of
        None \<Rightarrow> ([], False)
      | Some data \<Rightarrow>
          (case link_breaks_after srv of
             None \<Rightarrow> (data, True)
           | Some n \<Rightarrow> if n < length data then (take n data, False) else (data, True)))"

text \<open>
  \<open>storbinary(cmd, fh)\<close>: the server afterwards, and whether the call returned. A
  read-only server refuses the upload; a broken connection leaves the bytes sent.
\<close>

definition storbinary :: "ftp_server \<Rightarrow> string \<Rightarrow> bytes \<Rightarrow> ftp_server \<times> bool" where
  "storbinary srv name data =
     (if \<not> writable srv then (srv, False)
      else
        (case link_breaks_after srv of
           None \<Rightarrow> (srv\<lparr>remote_files := (remote_files srv)(name \<mapsto> data)\<rparr>, True)
         | Some n \<Rightarrow>
             if n < length data
             then (srv\<lparr>remote_files := (remote_files srv)(name \<mapsto> take n data)\<rparr>, False)
             else (srv\<lparr>remote_files := (remote_files srv)(name \<mapsto> data)\<rparr>, True)))"

section \<open>\<open>ChessModel\<close>\<close>

text \<open>
  The attributes \<open>__init__\<close> sets. \<open>self.api\<close> and \<open>get_pipes\<close> belong to the serving
  process and are left out.
\<close>

record 'g chess_model =
  config :: config
  model :: "'g option"
  digest :: "string option"

definition ChessModel_init :: "config \<Rightarrow> 'g chess_model" where
  "ChessModel_init cfg = \<lparr>config = cfg, model = None, digest = None\<rparr>"

subsection \<open>\<open>fetch_digest\<close>\<close>

text \<open>
  \<open>if os.path.exists(weight_path): m = sha256(); m.update(f.read()); return m.hexdigest()\<close>;
  falling off the end of the function returns \<open>None\<close>.
\<close>

definition fetch_digest :: "filesystem \<Rightarrow> path \<Rightarrow> string option" where
  "fetch_digest files weight_path =
     (if os_path_exists files weight_path
      then (case files weight_path of
              None \<Rightarrow> None
            | Some content \<Rightarrow> Some (sha256_hexdigest content))
      else None)"

subsection \<open>\<open>load\<close>\<close>

text \<open>
  Lines 137 to 147 of \<open>load\<close>, the \<open>try\<close> block whose \<open>except: pass\<close> swallows every
  exception: the world after it, wherever it stopped. \<open>open(path, 'wb')\<close> creates or
  empties the file before \<open>retrbinary\<close> runs, and the file keeps what the callback wrote.
\<close>

definition load_from_server :: "resource_config \<Rightarrow> path \<Rightarrow> path \<Rightarrow> world \<Rightarrow> world" where
  "load_from_server res config_path weight_path w =
     (let srv = server w;
          host = model_best_distributed_ftp_server res;
          user = model_best_distributed_ftp_user res;
          pw = model_best_distributed_ftp_password res;
          dir = model_best_distributed_ftp_remote_path res;
          w1 = w\<lparr>ftp_log := ftp_log w @ [LOGIN host user pw]\<rparr>
      in if \<not> accepts srv host user pw then w1
      else
        let w2 = w1\<lparr>ftp_log := ftp_log w1 @ [CWD dir]\<rparr>
        in if \<not> directories srv dir then w2
        else
          let got_c = retrbinary srv ''model_best_config.json'';
              w3 = w2\<lparr>fs := (fs w2)(config_path \<mapsto> fst got_c),
                      ftp_log := ftp_log w2 @ [RETR ''model_best_config.json'']\<rparr>
          in if \<not> snd got_c then w3
          else
            let got_w = retrbinary srv ''model_best_weight.h5'';
                w4 = w3\<lparr>fs := (fs w3)(weight_path \<mapsto> fst got_w),
                        ftp_log := ftp_log w3 @ [RETR ''model_best_weight.h5'']\<rparr>
            in if \<not> snd got_w then w4
            else w4\<lparr>ftp_log := ftp_log w4 @ [QUIT]\<rparr>)"

text \<open>
  \<open>load(config_path, weight_path)\<close>: what it returns or raises, the object and the world
  afterwards. \<open>self.model\<close> is assigned as soon as \<open>from_config\<close> returns, before the
  weights are read. \<open>_make_predict_function\<close> compiles the graph and changes no value.
\<close>

definition load ::
  "('g, 'j, 'x, 'y) framework \<Rightarrow> path \<Rightarrow> path \<Rightarrow> 'g chess_model \<times> world \<Rightarrow>
   bool outcome \<times> 'g chess_model \<times> world" where
  "load F config_path weight_path sw =
     (let self = fst sw; w = snd sw;
          mc = cfg_model (config self);
          resources = cfg_resource (config self);
          w' = (if distributed mc \<and> config_path = model_best_config_path resources
                then load_from_server resources config_path weight_path w
                else w)
      in if os_path_exists (fs w') config_path \<and> os_path_exists (fs w') weight_path
         then
           (case json_load F (the (fs w' config_path)) of
              None \<Rightarrow> (Raise JSONDecodeError, self, w')
            | Some j \<Rightarrow>
                (case from_config F j of
                   None \<Rightarrow> (Raise ValueError, self, w')
                 | Some g0 \<Rightarrow>
                     (case load_weights F g0 (the (fs w' weight_path)) of
                        None \<Rightarrow> (Raise OSError, self\<lparr>model := Some g0\<rparr>, w')
                      | Some g \<Rightarrow>
                          (Return True,
                           self\<lparr>model := Some g,
                                digest := fetch_digest (fs w') weight_path\<rparr>,
                           w'))))
         else (Return False, self, w'))"

subsection \<open>\<open>save\<close>\<close>

text \<open>
  Text written through a file object reaches the file when the object is flushed: it
  replaces the bytes from the start of the file and leaves what lies beyond them.
\<close>

definition flush_at_start :: "bytes \<Rightarrow> bytes \<Rightarrow> bytes" where
  "flush_at_start buffered content = buffered @ drop (length buffered) content"

text \<open>
  Lines 177 to 192 of \<open>save\<close>, the \<open>try\<close> block whose \<open>except: pass\<close> swallows every
  exception. The two local files are read and sent; the local files do not change.
\<close>

definition save_to_server :: "resource_config \<Rightarrow> path \<Rightarrow> path \<Rightarrow> world \<Rightarrow> world" where
  "save_to_server res config_path weight_path w =
     (let srv = server w;
          host = model_best_distributed_ftp_server res;
          user = model_best_distributed_ftp_user res;
          pw = model_best_distributed_ftp_password res;
          dir = model_best_distributed_ftp_remote_path res;
          w1 = w\<lparr>ftp_log := ftp_log w @ [LOGIN host user pw]\<rparr>
      in if \<not> accepts srv host user pw then w1
      else
        let w2 = w1\<lparr>ftp_log := ftp_log w1 @ [CWD dir]\<rparr>
        in if \<not> directories srv dir then w2
        else
          (case fs w2 config_path of
             None \<Rightarrow> w2
           | Some cbytes \<Rightarrow>
               let put_c = storbinary srv ''model_best_config.json'' cbytes;
                   w3 = w2\<lparr>server := fst put_c,
                           ftp_log := ftp_log w2 @ [STOR ''model_best_config.json'']\<rparr>
               in if \<not> snd put_c then w3
               else
                 (case fs w3 weight_path of
                    None \<Rightarrow> w3
                  | Some wbytes \<Rightarrow>
                      let put_w = storbinary (server w3) ''model_best_weight.h5'' wbytes;
                          w4 = w3\<lparr>server := fst put_w,
                                  ftp_log := ftp_log w3 @ [STOR ''model_best_weight.h5'']\<rparr>
                      in if \<not> snd put_w then w4
                      else w4\<lparr>ftp_log := ftp_log w4 @ [QUIT]\<rparr>)))"

text \<open>
  \<open>save(config_path, weight_path)\<close>. \<open>open(config_path, "wt")\<close> creates or empties the
  architecture file; \<open>self.model.get_config()\<close> raises \<open>AttributeError\<close> when no graph
  was built; \<open>json.dump\<close> writes into the file object; \<open>save_weights\<close> writes the weight
  file; leaving the \<open>with\<close> block flushes the text. With two different paths the order
  of the last two steps makes no difference. Writes to the local disk do not fail here.
\<close>

definition save ::
  "('g, 'j, 'x, 'y) framework \<Rightarrow> path \<Rightarrow> path \<Rightarrow> 'g chess_model \<times> world \<Rightarrow>
   unit outcome \<times> 'g chess_model \<times> world" where
  "save F config_path weight_path sw =
     (let self = fst sw; w = snd sw;
          w1 = w\<lparr>fs := (fs w)(config_path \<mapsto> [])\<rparr>
      in case model self of
           None \<Rightarrow> (Raise AttributeError, self, w1)
         | Some g \<Rightarrow>
             let text = json_dumps F (get_config F g);
                 w2 = w1\<lparr>fs := (fs w1)(weight_path \<mapsto> save_weights F g)\<rparr>;
                 w3 = w2\<lparr>fs := (fs w2)(config_path \<mapsto>
                           flush_at_start text (the (fs w2 config_path)))\<rparr>;
                 self' = self\<lparr>digest := fetch_digest (fs w3) weight_path\<rparr>;
                 mc = cfg_model (config self);
                 resources = cfg_resource (config self)
             in (Return (),
                 self',
                 if distributed mc \<and> config_path = model_best_config_path resources
                 then save_to_server resources config_path weight_path w3
                 else w3))"

section \<open>The network builders\<close>

text \<open>
  A Keras layer is a value; calling it on tensors gives a tensor. A tensor is the input
  placeholder or a layer applied to tensors, and a \<open>Model\<close> names its input and its
  outputs. Every convolution of the module is built with \<open>data_format="channels_first"\<close>.
  The arguments of a layer are kept in the order of the comments below; a layer built
  without a name or a regulariser has \<open>None\<close> there.
\<close>

datatype layer =
    Conv2D int "int \<times> int" string bool "real option" "string option"
      \<comment> \<open>filters, kernel size, padding, use_bias, l2 kernel regulariser, name\<close>
  | SeparableConv2D int "int \<times> int" string bool
      \<comment> \<open>filters, kernel size, padding, use_bias\<close>
  | BatchNormalization int "string option"
      \<comment> \<open>axis, name\<close>
  | Activation string string
      \<comment> \<open>activation, name\<close>
  | LeakyReLU real
      \<comment> \<open>alpha\<close>
  | Flatten string
      \<comment> \<open>name\<close>
  | Dense int "string option" "real option" string
      \<comment> \<open>units, activation, l2 kernel regulariser, name\<close>
  | Add string
      \<comment> \<open>name\<close>
  | Concatenate int
      \<comment> \<open>axis\<close>

datatype tensor = Input "int list" | Apply layer "tensor list"

record keras_model =
  model_inputs :: tensor
  model_outputs :: "tensor list"
  model_name :: string

text \<open>Python's \<open>str\<close> on an integer: decimal digits, a minus sign when negative.\<close>

fun str_nat :: "nat \<Rightarrow> string" where
  "str_nat n =
     (if n < 10 then [''0123456789'' ! n]
      else str_nat (n div 10) @ [''0123456789'' ! (n mod 10)])"

declare str_nat.simps [simp del]

definition str :: "int \<Rightarrow> string" where
  "str i = (if i < 0 then CHR ''-'' # str_nat (nat (- i)) else str_nat (nat i))"

subsection \<open>\<open>ChessModel._build_residual_block\<close> and \<open>ChessModel.build\<close>\<close>

definition build_residual_block :: "model_config \<Rightarrow> tensor \<Rightarrow> int \<Rightarrow> tensor" where
  "build_residual_block mc x index =
     (let in_x = x;
          res_name = ''res'' @ str index;
          x = Apply (Conv2D (cnn_filter_num mc) (cnn_filter_size mc, cnn_filter_size mc)
                       ''same'' False (Some (l2_reg mc))
                       (Some (res_name @ ''_conv1-'' @ str (cnn_filter_size mc) @ ''-''
                              @ str (cnn_filter_num mc)))) [x];
          x = Apply (BatchNormalization 1 (Some (res_name @ ''_batchnorm1''))) [x];
          x = Apply (Activation ''relu'' (res_name @ ''_relu1'')) [x];
          x = Apply (Conv2D (cnn_filter_num mc) (cnn_filter_size mc, cnn_filter_size mc)
                       ''same'' False (Some (l2_reg mc))
                       (Some (res_name @ ''_conv2-'' @ str (cnn_filter_size mc) @ ''-''
                              @ str (cnn_filter_num mc)))) [x];
          x = Apply (BatchNormalization 1 (Some (''res'' @ str index @ ''_batchnorm2''))) [x];
          x = Apply (Add (res_name @ ''_add'')) [in_x, x];
          x = Apply (Activation ''relu'' (res_name @ ''_relu2'')) [x]
      in x)"

text \<open>
  \<open>for i in range(mc.res_layer_num): x = self._build_residual_block(x, i + 1)\<close>;
  \<open>range\<close> of a number below one is empty.
\<close>

definition residual_tower :: "model_config \<Rightarrow> tensor \<Rightarrow> tensor" where
  "residual_tower mc x =
     fold (\<lambda>i x. build_residual_block mc x (int i + 1)) [0..<nat (res_layer_num mc)] x"

definition build :: "keras_model chess_model \<Rightarrow> keras_model chess_model" where
  "build self =
     (let mc = cfg_model (config self);
          in_x = Input [18, 8, 8];
          x = Apply (Conv2D (cnn_filter_num mc)
                       (cnn_first_filter_size mc, cnn_first_filter_size mc)
                       ''same'' False (Some (l2_reg mc))
                       (Some (''input_conv-'' @ str (cnn_first_filter_size mc) @ ''-''
                              @ str (cnn_filter_num mc)))) [in_x];
          x = Apply (BatchNormalization 1 (Some ''input_batchnorm'')) [x];
          x = Apply (Activation ''relu'' ''input_relu'') [x];
          res_out = residual_tower mc x;
          x = Apply (Conv2D 2 (1, 1) ''valid'' False (Some (l2_reg mc))
                       (Some ''policy_conv-1-2'')) [res_out];
          x = Apply (BatchNormalization 1 (Some ''policy_batchnorm'')) [x];
          x = Apply (Activation ''relu'' ''policy_relu'') [x];
          x = Apply (Flatten ''policy_flatten'') [x];
          policy_out = Apply (Dense (n_labels (config self)) (Some ''softmax'')
                                (Some (l2_reg mc)) ''policy_out'') [x];
          x = Apply (Conv2D 4 (1, 1) ''valid'' False (Some (l2_reg mc))
                       (Some ''value_conv-1-4'')) [res_out];
          x = Apply (BatchNormalization 1 (Some ''value_batchnorm'')) [x];
          x = Apply (Activation ''relu'' ''value_relu'') [x];
          x = Apply (Flatten ''value_flatten'') [x];
          x = Apply (Dense (value_fc_size mc) (Some ''relu'') (Some (l2_reg mc))
                       ''value_dense'') [x];
          value_out = Apply (Dense 1 (Some ''tanh'') (Some (l2_reg mc)) ''value_out'') [x]
      in self\<lparr>model := Some \<lparr>model_inputs = in_x,
                               model_outputs = [policy_out, value_out],
                               model_name = ''chess_model''\<rparr>\<rparr>)"

text \<open>
  A configuration the layer constructors accept: the sizes are positive, the number of
  residual blocks and the regularisation strength are not negative.
\<close>

definition valid_config :: "config \<Rightarrow> bool" where
  "valid_config cfg =
     (0 < cnn_filter_num (cfg_model cfg) \<and> 0 < cnn_first_filter_size (cfg_model cfg)
      \<and> 0 < cnn_filter_size (cfg_model cfg) \<and> 0 \<le> res_layer_num (cfg_model cfg)
      \<and> 0 \<le> l2_reg (cfg_model cfg) \<and> 0 < value_fc_size (cfg_model cfg)
      \<and> 0 < n_labels cfg)"

subsection \<open>What a graph computes\<close>

text \<open>
  One board at a time, a tensor flattened to a list of reals (floating point is read as
  real arithmetic). The trained parameters are arbitrary: a dense layer has a kernel and
  a bias; what a convolution or a normalisation computes with its parameters is any
  function on the flattened tensor.
\<close>

record parameters =
  dense_kernel :: "string \<Rightarrow> nat \<Rightarrow> nat \<Rightarrow> real"
  dense_bias :: "string \<Rightarrow> nat \<Rightarrow> real"
  feature_map :: "layer \<Rightarrow> real list \<Rightarrow> real list"

definition softmax :: "real list \<Rightarrow> real list" where
  "softmax zs = map (\<lambda>z. exp z / sum_list (map exp zs)) zs"

definition apply_activation :: "string option \<Rightarrow> real list \<Rightarrow> real list" where
  "apply_activation a zs =
     (if a = Some ''softmax'' then softmax zs
      else if a = Some ''tanh'' then map tanh zs
      else if a = Some ''relu'' then map (max 0) zs
      else zs)"

definition dense :: "parameters \<Rightarrow> string \<Rightarrow> int \<Rightarrow> real list \<Rightarrow> real list" where
  "dense \<theta> nm units xs =
     map (\<lambda>i. (\<Sum>j < length xs. xs ! j * dense_kernel \<theta> nm j i) + dense_bias \<theta> nm i)
       [0..<nat units]"

fun add_tensors :: "real list list \<Rightarrow> real list" where
  "add_tensors [] = []"
| "add_tensors [xs] = xs"
| "add_tensors (xs # ys # rest) = add_tensors (map2 (+) xs ys # rest)"

fun layer_output :: "parameters \<Rightarrow> layer \<Rightarrow> real list list \<Rightarrow> real list" where
  "layer_output \<theta> (Dense units a reg nm) args =
     apply_activation a (dense \<theta> nm units (concat args))"
| "layer_output \<theta> (Activation a nm) args = apply_activation (Some a) (concat args)"
| "layer_output \<theta> (LeakyReLU alpha) args =
     map (\<lambda>v. if 0 \<le> v then v else alpha * v) (concat args)"
| "layer_output \<theta> (Flatten nm) args = concat args"
| "layer_output \<theta> (Add nm) args = add_tensors args"
| "layer_output \<theta> (Concatenate axis) args = concat args"
| "layer_output \<theta> l args = feature_map \<theta> l (concat args)"

fun eval :: "parameters \<Rightarrow> real list \<Rightarrow> tensor \<Rightarrow> real list" where
  "eval \<theta> board (Input shape) = board"
| "eval \<theta> board (Apply l ts) = layer_output \<theta> l (map (eval \<theta> board) ts)"

definition predict_on_board :: "parameters \<Rightarrow> keras_model \<Rightarrow> real list \<Rightarrow> real list list" where
  "predict_on_board \<theta> m board = map (eval \<theta> board) (model_outputs m)"

subsection \<open>\<open>BetterChessModel\<close>\<close>

record 'g better_chess_model = "'g chess_model" +
  data_format :: string
  blocks_count :: int
  channels :: int
  conv_along_axis_channels :: int
  conv15_channels :: int
  conv5_channels :: int
  leaky_alpha :: real

definition BetterChessModel_init :: "config \<Rightarrow> 'g better_chess_model" where
  "BetterChessModel_init cfg =
     (let channels' = 128;
          conv_along_axis_channels' = 16;
          conv15_channels' = 4
      in \<lparr>config = cfg, model = None, digest = None,
          data_format = ''channels_first'',
          blocks_count = 6,
          channels = channels',
          conv_along_axis_channels = conv_along_axis_channels',
          conv15_channels = conv15_channels',
          conv5_channels = channels' - conv_along_axis_channels' * 2 - conv15_channels',
          leaky_alpha = 0.3\<rparr>)"

text \<open>
  A Python value that the module calls: a layer object, which is callable, or a tensor,
  which is not (\<open>TypeError: 'Tensor' object is not callable\<close>).
\<close>

datatype pyobj = LayerObject layer | TensorObject tensor

definition py_call :: "pyobj \<Rightarrow> tensor list \<Rightarrow> tensor outcome" where
  "py_call f args =
     (case f of
        LayerObject l \<Rightarrow> Return (Apply l args)
      | TensorObject t \<Rightarrow> Raise TypeError)"

definition pointwise_conv :: "'g better_chess_model \<Rightarrow> tensor \<Rightarrow> int \<Rightarrow> tensor" where
  "pointwise_conv self layer channels' =
     (let layer = Apply (Conv2D channels' (1, 1) ''same'' False None None) [layer];
          layer = Apply (BatchNormalization 1 None) [layer]
      in Apply (LeakyReLU (leaky_alpha self)) [layer])"

definition separable_conv ::
  "'g better_chess_model \<Rightarrow> tensor \<Rightarrow> int \<Rightarrow> int \<times> int \<Rightarrow> tensor" where
  "separable_conv self layer channels' kernel_size =
     (let layer = Apply (SeparableConv2D channels' kernel_size ''same'' False) [layer];
          layer = Apply (BatchNormalization 1 None) [layer]
      in Apply (LeakyReLU (leaky_alpha self)) [layer])"

text \<open>
  \<open>layer = self.pointwise_conv(layer, channels)(layer)\<close> and
  \<open>return self.separable_conv(layer, channels, kernel)(layer)\<close>: both helpers return a
  tensor, and the tensor is then called.
\<close>

definition pointwise_and_separable ::
  "'g better_chess_model \<Rightarrow> tensor \<Rightarrow> int \<Rightarrow> int \<times> int \<Rightarrow> tensor outcome" where
  "pointwise_and_separable self layer channels' kernel_size =
     (case py_call (TensorObject (pointwise_conv self layer channels')) [layer] of
        Raise e \<Rightarrow> Raise e
      | Return layer \<Rightarrow>
          py_call (TensorObject (separable_conv self layer channels' kernel_size)) [layer])"

definition custom_layer :: "'g better_chess_model \<Rightarrow> tensor \<Rightarrow> tensor outcome" where
  "custom_layer self previous =
     (let conv5 = separable_conv self previous (conv5_channels self) (5, 5)
      in case pointwise_and_separable self previous (conv_along_axis_channels self) (1, 15) of
           Raise e \<Rightarrow> Raise e
         | Return conv_along1 \<Rightarrow>
             (case pointwise_and_separable self previous (conv_along_axis_channels self)
                     (15, 1) of
                Raise e \<Rightarrow> Raise e
              | Return conv_along2 \<Rightarrow>
                  (case pointwise_and_separable self previous (conv15_channels self)
                          (15, 15) of
                     Raise e \<Rightarrow> Raise e
                   | Return conv15 \<Rightarrow>
                       Return (Apply (Concatenate 1)
                                 [conv5, conv15, conv_along1, conv_along2]))))"

text \<open>\<open>for i in range(self.blocks_count): x = self.custom_layer(x)\<close>\<close>

primrec custom_layers :: "'g better_chess_model \<Rightarrow> nat \<Rightarrow> tensor \<Rightarrow> tensor outcome" where
  "custom_layers self 0 x = Return x"
| "custom_layers self (Suc n) x =
     (case custom_layer self x of
        Raise e \<Rightarrow> Raise e
      | Return x' \<Rightarrow> custom_layers self n x')"

definition BetterChessModel_build ::
  "keras_model better_chess_model \<Rightarrow> unit outcome \<times> keras_model better_chess_model" where
  "BetterChessModel_build self =
     (let mc = cfg_model (config self);
          in_x = Input [18, 8, 8];
          x = pointwise_conv self in_x (channels self)
      in case custom_layers self (nat (blocks_count self)) x of
           Raise e \<Rightarrow> (Raise e, self)
         | Return res_out \<Rightarrow>
             let x = pointwise_conv self res_out 2;
                 x = Apply (Flatten ''policy_flatten'') [x];
                 policy_out = Apply (Dense (n_labels (config self)) (Some ''softmax'') None
                                       ''policy_out'') [x];
                 x = pointwise_conv self res_out 4;
                 x = Apply (Flatten ''value_flatten'') [x];
                 x = Apply (Dense (value_fc_size mc) None None ''value_dense'') [x];
                 x = Apply (LeakyReLU (leaky_alpha self)) [x];
                 value_out = Apply (Dense 1 (Some ''tanh'') None ''value_out'') [x]
             in (Return (),
                 self\<lparr>model := Some \<lparr>model_inputs = in_x,
                                      model_outputs = [policy_out, value_out],
                                      model_name = ''chess_model''\<rparr>\<rparr>))"

section \<open>Conditions on a session\<close>

text \<open>
  A session with the server gets as far as the transfers when the login is accepted and
  the remote directory exists: these are the two calls before the first file is opened.
\<close>

definition session_opens :: "resource_config \<Rightarrow> ftp_server \<Rightarrow> bool" where
  "session_opens res srv =
     (accepts srv (model_best_distributed_ftp_server res)
        (model_best_distributed_ftp_user res) (model_best_distributed_ftp_password res)
      \<and> directories srv (model_best_distributed_ftp_remote_path res))"

text \<open>The guard of both \<open>try\<close> blocks: \<open>mc.distributed and config_path == resources.model_best_config_path\<close>.\<close>

definition uses_server :: "config \<Rightarrow> path \<Rightarrow> bool" where
  "uses_server cfg config_path =
     (distributed (cfg_model cfg) \<and> config_path = model_best_config_path (cfg_resource cfg))"

section \<open>Concrete instances\<close>

text \<open>
  A small framework on which the definitions run: a graph is a pair of an architecture
  description and weight values, both byte strings. The architecture is written between
  braces and read back only from a document in braces; a weight file starts with the
  four bytes of the HDF5 signature and is read back only when it does; a prediction
  depends on the architecture, the weights and the input.
\<close>

definition hdf5_signature :: bytes where
  "hdf5_signature = [137, 72, 68, 70]"

definition sample_framework :: "(bytes \<times> bytes, bytes, bytes, bytes) framework" where
  "sample_framework =
     \<lparr>json_dumps = (\<lambda>j. [123] @ j @ [125]),
      json_loads = (\<lambda>doc. if 2 \<le> length doc \<and> hd doc = 123 \<and> last doc = 125
                          then Some (butlast (tl doc)) else None),
      get_config = fst,
      from_config = (\<lambda>j. Some (j, [])),
      save_weights = (\<lambda>g. hdf5_signature @ snd g),
      load_weights = (\<lambda>g content. if take 4 content = hdf5_signature
                                   then Some (fst g, drop 4 content) else None),
      predict = (\<lambda>g x. fst g @ snd g @ x)\<rparr>"

definition sample_graph :: "bytes \<times> bytes" where
  "sample_graph = ([1, 2, 3], [10, 20])"

definition older_graph :: "bytes \<times> bytes" where
  "older_graph = ([1, 2, 3], [7, 7])"

definition sample_resources :: resource_config where
  "sample_resources =
     \<lparr>model_best_config_path = ''best_config.json'',
      model_best_weight_path = ''best_weight.h5'',
      model_best_distributed_ftp_server = ''ftp.example.org'',
      model_best_distributed_ftp_user = ''user'',
      model_best_distributed_ftp_password = ''secret'',
      model_best_distributed_ftp_remote_path = ''/models''\<rparr>"

definition sample_config :: "bool \<Rightarrow> config" where
  "sample_config is_distributed =
     \<lparr>cfg_model = \<lparr>cnn_filter_num = 256, cnn_first_filter_size = 5, cnn_filter_size = 3,
                   res_layer_num = 7, l2_reg = 1 / 10000, value_fc_size = 256,
                   distributed = is_distributed\<rparr>,
      cfg_resource = sample_resources,
      n_labels = 1968\<rparr>"

text \<open>Local files holding the sample graph as \<open>save\<close> writes it.\<close>

definition sample_files :: filesystem where
  "sample_files =
     [''best_config.json'' \<mapsto> [123, 1, 2, 3, 125],
      ''best_weight.h5'' \<mapsto> [137, 72, 68, 70, 10, 20]]"

text \<open>
  Five servers: one that cannot be reached; one that is reached, holds no file and
  takes no upload; one that is reached, takes no upload and holds an older model; one
  like it whose data connection breaks after two bytes; one that is reached, holds no
  file yet and takes uploads.
\<close>

definition offline_server :: ftp_server where
  "offline_server =
     \<lparr>accepts = (\<lambda>host user pw. False), directories = (\<lambda>dir. False),
      remote_files = Map.empty, writable = False, link_breaks_after = None\<rparr>"

definition empty_server :: ftp_server where
  "empty_server =
     \<lparr>accepts = (\<lambda>host user pw. True), directories = (\<lambda>dir. True),
      remote_files = Map.empty, writable = False, link_breaks_after = None\<rparr>"

definition stale_server :: ftp_server where
  "stale_server =
     \<lparr>accepts = (\<lambda>host user pw. True), directories = (\<lambda>dir. True),
      remote_files = [''model_best_config.json'' \<mapsto> [123, 1, 2, 3, 125],
                      ''model_best_weight.h5'' \<mapsto> [137, 72, 68, 70, 7, 7]],
      writable = False, link_breaks_after = None\<rparr>"

definition flaky_server :: ftp_server where
  "flaky_server = stale_server\<lparr>link_breaks_after := Some 2\<rparr>"

definition mirror_server :: ftp_server where
  "mirror_server =
     \<lparr>accepts = (\<lambda>host user pw. True), directories = (\<lambda>dir. True),
      remote_files = Map.empty, writable = True, link_breaks_after = None\<rparr>"

text \<open>
  Trained parameters that are all zero, with convolutions and normalisations that hand
  their input on, and a configuration small enough to evaluate by hand.
\<close>

definition zero_parameters :: parameters where
  "zero_parameters =
     \<lparr>dense_kernel = (\<lambda>nm j i. 0), dense_bias = (\<lambda>nm i. 0),
      feature_map = (\<lambda>l xs. xs)\<rparr>"

definition small_config :: config where
  "small_config =
     \<lparr>cfg_model = \<lparr>cnn_filter_num = 2, cnn_first_filter_size = 3, cnn_filter_size = 3,
                   res_layer_num = 1, l2_reg = 1 / 10000, value_fc_size = 2,
                   distributed = False\<rparr>,
      cfg_resource = sample_resources,
      n_labels = 4\<rparr>"

section \<open>Auxiliary facts\<close>

lemmas sample_defs = sample_framework_def sample_files_def sample_config_def sample_resources_def
  sample_graph_def older_graph_def offline_server_def empty_server_def stale_server_def
  mirror_server_def flaky_server_def hdf5_signature_def ChessModel_init_def

subsection \<open>SHA-256 on two messages\<close>

text \<open>The test vector \<open>"abc"\<close> of FIPS 180-4, and the weight file of the sample graph.\<close>

lemma sha256_abc:
  "sha256_hexdigest [97, 98, 99] =
     ''ba7816bf8f01cfea414140de5dae2223b00361a396177a9cb410ff61f20015ad''"
  by code_simp

lemma sha256_sample_weights:
  "sha256_hexdigest [137, 72, 68, 70, 10, 20] =
     ''93073ecf7ce58a62ef44ce1559d0ae31ebae014126bfc3e4beec793812429858''"
  by code_simp

subsection \<open>The two sessions with the server\<close>

lemma load_from_server_log: "ftp_log (load_from_server res c wp w) \<noteq> ftp_log w"
  by (simp add: load_from_server_def Let_def)

lemma save_to_server_log: "ftp_log (save_to_server res c wp w) \<noteq> ftp_log w"
  by (simp add: save_to_server_def Let_def split: option.splits)

lemma save_to_server_log_from:
  "ftp_log w2 = ftp_log w \<Longrightarrow> ftp_log (save_to_server res c wp w2) \<noteq> ftp_log w"
  using save_to_server_log [of res c wp w2] by simp

lemma save_to_server_fs: "fs (save_to_server res c wp w) = fs w"
  by (simp add: save_to_server_def Let_def split: option.splits)

lemma load_world:
  "snd (snd (load F c wp (self, w))) =
     (if uses_server (config self) c
      then load_from_server (cfg_resource (config self)) c wp w else w)"
  by (simp add: load_def Let_def uses_server_def split: option.splits)

lemma load_from_server_closed:
  "\<not> session_opens res (server w) \<Longrightarrow> fs (load_from_server res c wp w) = fs w"
  by (auto simp: load_from_server_def session_opens_def Let_def)

lemma load_from_server_opened:
  "session_opens res (server w) \<Longrightarrow>
   fs (load_from_server res c wp w) =
     (if snd (retrbinary (server w) ''model_best_config.json'')
      then (fs w)(c \<mapsto> fst (retrbinary (server w) ''model_best_config.json''),
                  wp \<mapsto> fst (retrbinary (server w) ''model_best_weight.h5''))
      else (fs w)(c \<mapsto> fst (retrbinary (server w) ''model_best_config.json'')))"
  by (auto simp: load_from_server_def session_opens_def Let_def)

lemma save_to_server_closed:
  "\<not> session_opens res (server w) \<Longrightarrow> server (save_to_server res c wp w) = server w"
  by (auto simp: save_to_server_def session_opens_def Let_def)

lemma save_to_server_complete:
  assumes "session_opens res (server w)" and "writable (server w)"
      and "link_breaks_after (server w) = None"
      and "fs w c = Some cbytes" and "fs w wp = Some wbytes"
  shows "server (save_to_server res c wp w) =
           (server w)\<lparr>remote_files := (remote_files (server w))
              (''model_best_config.json'' \<mapsto> cbytes, ''model_best_weight.h5'' \<mapsto> wbytes)\<rparr>"
  using assms
  by (simp add: save_to_server_def session_opens_def storbinary_def Let_def)

subsection \<open>\<open>save\<close> on a built graph, \<open>load\<close> on readable files\<close>

lemma save_built:
  assumes "model self = Some g" and "c \<noteq> wp"
  shows "fst (save F c wp (self, w)) = Return ()"
    and "fst (snd (save F c wp (self, w))) =
           self\<lparr>digest := Some (sha256_hexdigest (save_weights F g))\<rparr>"
    and "snd (snd (save F c wp (self, w))) =
           (let w3 = w\<lparr>fs := (fs w)(c \<mapsto> json_dumps F (get_config F g),
                                     wp \<mapsto> save_weights F g)\<rparr>
            in if uses_server (config self) c
               then save_to_server (cfg_resource (config self)) c wp w3 else w3)"
  using assms
  by (auto simp: save_def Let_def flush_at_start_def fetch_digest_def os_path_exists_def
        uses_server_def fun_upd_twist)

lemma load_reads_files:
  assumes "fs (snd (snd (load F c wp (self, w)))) c = Some cbytes"
      and "fs (snd (snd (load F c wp (self, w)))) wp = Some wbytes"
      and "json_load F cbytes = Some j" and "from_config F j = Some g0"
      and "load_weights F g0 wbytes = Some g'"
  shows "fst (load F c wp (self, w)) = Return True
       \<and> model (fst (snd (load F c wp (self, w)))) = Some g'"
  using assms
  by (auto simp: load_def Let_def os_path_exists_def split: option.splits if_splits)

subsection \<open>Softmax and tanh\<close>

lemma softmax_length: "length (softmax zs) = length zs"
  by (simp add: softmax_def)

lemma sum_list_exp_pos: "zs \<noteq> [] \<Longrightarrow> 0 < sum_list (map exp (zs :: real list))"
proof (induction zs)
  case Nil
  then show ?case by simp
next
  case (Cons z zs)
  show ?case
  proof (cases "zs = []")
    case True
    then show ?thesis by simp
  next
    case False
    with Cons.IH have "0 < sum_list (map exp zs)" by simp
    moreover have "0 < exp z" by simp
    ultimately show ?thesis by (simp add: add_pos_pos)
  qed
qed

lemma sum_list_exp_nonneg: "0 \<le> sum_list (map exp (zs :: real list))"
  by (induction zs) (auto intro: add_nonneg_nonneg)

lemma exp_le_sum_list: "z \<in> set zs \<Longrightarrow> exp z \<le> sum_list (map exp (zs :: real list))"
proof (induction zs)
  case Nil
  then show ?case by simp
next
  case (Cons y ys)
  have nn: "0 \<le> sum_list (map exp ys)" by (rule sum_list_exp_nonneg)
  show ?case
  proof (cases "z = y")
    case True
    with nn show ?thesis by simp
  next
    case False
    with Cons have "exp z \<le> sum_list (map exp ys)" by simp
    moreover have "0 < exp y" by simp
    ultimately show ?thesis by (simp add: add_increasing)
  qed
qed

lemma sum_list_divide: "sum_list (map (\<lambda>z. f z / c) zs) = sum_list (map f zs) / (c :: real)"
  by (induction zs) (simp_all add: add_divide_distrib)

lemma softmax_sum: "zs \<noteq> [] \<Longrightarrow> sum_list (softmax zs) = 1"
  using sum_list_exp_pos [of zs] by (simp add: softmax_def sum_list_divide)

lemma softmax_range: "list_all (\<lambda>p. 0 \<le> p \<and> p \<le> 1) (softmax zs)"
proof -
  have "0 \<le> exp z / sum_list (map exp zs) \<and> exp z / sum_list (map exp zs) \<le> 1"
    if "z \<in> set zs" for z
  proof -
    from that have ne: "zs \<noteq> []" by auto
    have pos: "0 < sum_list (map exp zs)" by (rule sum_list_exp_pos [OF ne])
    have le: "exp z \<le> sum_list (map exp zs)" by (rule exp_le_sum_list [OF that])
    from pos le show ?thesis by simp
  qed
  then show ?thesis by (simp add: softmax_def list_all_iff)
qed

lemma tanh_range: "list_all (\<lambda>v. - 1 \<le> v \<and> v \<le> 1) (map tanh (zs :: real list))"
proof -
  have "- 1 \<le> tanh z \<and> tanh z \<le> 1" for z :: real
    using tanh_real_gt_neg1 [of z] tanh_real_lt_1 [of z] by simp
  then show ?thesis by (simp add: list_all_iff)
qed

lemma dense_length: "length (dense \<theta> nm units xs) = nat units"
  by (simp add: dense_def)

subsection \<open>The custom block\<close>

lemma custom_layer_raises: "custom_layer self x = Raise TypeError"
  by (simp add: custom_layer_def pointwise_and_separable_def py_call_def Let_def)

lemma custom_layers_raise: "0 < n \<Longrightarrow> custom_layers self n x = Raise TypeError"
  by (cases n) (simp_all add: custom_layer_raises)

lemma small_run:
  "predict_on_board zero_parameters (the (model (build (ChessModel_init small_config)))) board
     = [[1 / 4, 1 / 4, 1 / 4, 1 / 4], [0]]"
proof -
  have "[0..<4] = [0, 1, 2, 3]"
    by (simp add: upt_conv_Cons)
  then show ?thesis
    by (simp add: build_def Let_def predict_on_board_def apply_activation_def small_config_def
          ChessModel_init_def zero_parameters_def dense_def softmax_def)
qed

section \<open>Properties\<close>

text \<open>
  C1, as the code has it. \<open>load\<close> returns \<open>True\<close> exactly when, after the fetch attempt
  if there is one, both files exist and their contents are read back (\<open>json.load\<close>,
  \<open>Model.from_config\<close> and \<open>load_weights\<close> all return). It returns \<open>False\<close> exactly
  when one or both files are missing; then nothing is raised and the object, \<open>self.model\<close>
  included, is unchanged. Two existing files that cannot be read back make it raise.
  The world it leaves is the one the fetch attempt left.
\<close>

theorem load_outcome:
  assumes "load F config_path weight_path (self, w) = (r, self', w')"
  shows "(r = Return True \<longleftrightarrow>
            (\<exists>cbytes wbytes j g0 g.
               fs w' config_path = Some cbytes \<and> fs w' weight_path = Some wbytes \<and>
               json_load F cbytes = Some j \<and> from_config F j = Some g0 \<and>
               load_weights F g0 wbytes = Some g))
       \<and> (r = Return False \<longleftrightarrow>
            \<not> (os_path_exists (fs w') config_path \<and> os_path_exists (fs w') weight_path))
       \<and> (\<not> (os_path_exists (fs w') config_path \<and> os_path_exists (fs w') weight_path)
            \<longrightarrow> self' = self)
       \<and> w' = (if distributed (cfg_model (config self)) \<and>
                  config_path = model_best_config_path (cfg_resource (config self))
               then load_from_server (cfg_resource (config self)) config_path weight_path w
               else w)"
  using assms
  by (auto simp: load_def Let_def os_path_exists_def split: option.splits if_splits)

theorem load_outcome_witness:
  "load sample_framework ''best_config.json'' ''best_weight.h5''
     (ChessModel_init (sample_config False),
      \<lparr>fs = sample_files, server = offline_server, ftp_log = []\<rparr>)
   = (Return True,
      \<lparr>config = sample_config False, model = Some ([1, 2, 3], [10, 20]),
       digest = Some ''93073ecf7ce58a62ef44ce1559d0ae31ebae014126bfc3e4beec793812429858''\<rparr>,
      \<lparr>fs = sample_files, server = offline_server, ftp_log = []\<rparr>)
   \<and> (\<exists>cbytes wbytes j g0 g.
         sample_files ''best_config.json'' = Some cbytes \<and>
         sample_files ''best_weight.h5'' = Some wbytes \<and>
         json_load sample_framework cbytes = Some j \<and>
         from_config sample_framework j = Some g0 \<and>
         load_weights sample_framework g0 wbytes = Some g)"
proof -
  have run: "load sample_framework ''best_config.json'' ''best_weight.h5''
     (ChessModel_init (sample_config False),
      \<lparr>fs = sample_files, server = offline_server, ftp_log = []\<rparr>)
   = (Return True,
      \<lparr>config = sample_config False, model = Some ([1, 2, 3], [10, 20]),
       digest = Some ''93073ecf7ce58a62ef44ce1559d0ae31ebae014126bfc3e4beec793812429858''\<rparr>,
      \<lparr>fs = sample_files, server = offline_server, ftp_log = []\<rparr>)"
    by (simp add: load_def Let_def os_path_exists_def json_load_def fetch_digest_def sample_defs
          sha256_sample_weights)
  from load_outcome [OF run] run show ?thesis by simp
qed

text \<open>
  C1 as written fails. Both files exist and the architecture file is empty: \<open>load\<close> raises
  \<open>JSONDecodeError\<close>; it does not return \<open>True\<close>.
\<close>

theorem load_existing_files_raise:
  "os_path_exists (sample_files(''best_config.json'' \<mapsto> [])) ''best_config.json''
   \<and> os_path_exists (sample_files(''best_config.json'' \<mapsto> [])) ''best_weight.h5''
   \<and> fst (load sample_framework ''best_config.json'' ''best_weight.h5''
            (ChessModel_init (sample_config False),
             \<lparr>fs = sample_files(''best_config.json'' \<mapsto> []), server = offline_server,
              ftp_log = []\<rparr>))
       = Raise JSONDecodeError"
  by (simp add: load_def Let_def os_path_exists_def json_load_def sample_defs)



text \<open>
  C3. \<open>fetch_digest(weight_path)\<close> returns the SHA-256 hex digest of the file's bytes
  when a file exists at the path and \<open>None\<close> when none does; so it returns the same
  string on any two file systems that hold the same bytes at the path.
\<close>

theorem fetch_digest_spec:
  "fetch_digest files weight_path =
     (case files weight_path of
        None \<Rightarrow> None
      | Some content \<Rightarrow> Some (sha256_hexdigest content))
   \<and> (files' weight_path = files weight_path \<longrightarrow>
        fetch_digest files' weight_path = fetch_digest files weight_path)"
  by (simp add: fetch_digest_def os_path_exists_def split: option.splits)

theorem fetch_digest_spec_witness:
  "fetch_digest sample_files ''best_weight.h5'' = Some ''93073ecf7ce58a62ef44ce1559d0ae31ebae014126bfc3e4beec793812429858''
   \<and> fetch_digest sample_files ''missing.h5'' = None
   \<and> (sample_files(''other'' \<mapsto> [])) ''best_weight.h5'' = sample_files ''best_weight.h5''
   \<and> fetch_digest (sample_files(''other'' \<mapsto> [])) ''best_weight.h5''
       = fetch_digest sample_files ''best_weight.h5''"
  using fetch_digest_spec [of sample_files "''best_weight.h5''" "sample_files(''other'' \<mapsto> [])"]
        fetch_digest_spec [of sample_files "''missing.h5''" sample_files]
  by (simp add: sample_files_def sha256_sample_weights)

text \<open>
  C4, as the code has it. \<open>load\<close> sends commands to the server exactly when the model
  is distributed and the architecture path is the canonical one; \<open>save\<close> does exactly
  when, besides, a graph is built. The weight path is not compared. Otherwise \<open>load\<close>
  leaves the world as it was and \<open>save\<close> leaves the server as it was.
\<close>

theorem remote_sync_guard:
  "(ftp_log (snd (snd (load F config_path weight_path (self, w)))) \<noteq> ftp_log w)
     = (distributed (cfg_model (config self)) \<and>
        config_path = model_best_config_path (cfg_resource (config self)))
   \<and> (ftp_log (snd (snd (save F config_path weight_path (self, w)))) \<noteq> ftp_log w)
     = (model self \<noteq> None \<and> distributed (cfg_model (config self)) \<and>
        config_path = model_best_config_path (cfg_resource (config self)))
   \<and> (\<not> (distributed (cfg_model (config self)) \<and>
           config_path = model_best_config_path (cfg_resource (config self)))
        \<longrightarrow> snd (snd (load F config_path weight_path (self, w))) = w
            \<and> server (snd (snd (save F config_path weight_path (self, w)))) = server w)"
proof -
  have l: "(ftp_log (snd (snd (load F config_path weight_path (self, w)))) \<noteq> ftp_log w)
     = (distributed (cfg_model (config self)) \<and>
        config_path = model_best_config_path (cfg_resource (config self)))"
    by (simp add: load_def Let_def load_from_server_log split: option.splits)
  have s: "(ftp_log (snd (snd (save F config_path weight_path (self, w)))) \<noteq> ftp_log w)
     = (model self \<noteq> None \<and> distributed (cfg_model (config self)) \<and>
        config_path = model_best_config_path (cfg_resource (config self)))"
    by (auto simp: save_def Let_def save_to_server_log_from split: option.splits)
  have n: "\<not> (distributed (cfg_model (config self)) \<and>
           config_path = model_best_config_path (cfg_resource (config self)))
        \<longrightarrow> snd (snd (load F config_path weight_path (self, w))) = w
            \<and> server (snd (snd (save F config_path weight_path (self, w)))) = server w"
    by (auto simp: load_def save_def Let_def split: option.splits)
  from l s n show ?thesis by blast
qed

theorem remote_sync_guard_witness:
  "ftp_log (snd (snd (load sample_framework ''best_config.json'' ''best_weight.h5''
      (ChessModel_init (sample_config True),
       \<lparr>fs = sample_files, server = offline_server, ftp_log = []\<rparr>)))) \<noteq> []
   \<and> snd (snd (load sample_framework ''best_config.json'' ''best_weight.h5''
      (ChessModel_init (sample_config False),
       \<lparr>fs = sample_files, server = offline_server, ftp_log = []\<rparr>)))
     = \<lparr>fs = sample_files, server = offline_server, ftp_log = []\<rparr>
   \<and> ftp_log (snd (snd (save sample_framework ''elsewhere.json'' ''best_weight.h5''
      ((ChessModel_init (sample_config True))\<lparr>model := Some sample_graph\<rparr>,
       \<lparr>fs = sample_files, server = offline_server, ftp_log = []\<rparr>)))) = []"
  using remote_sync_guard [of sample_framework "''best_config.json''" "''best_weight.h5''"
          "ChessModel_init (sample_config True)"
          "\<lparr>fs = sample_files, server = offline_server, ftp_log = []\<rparr>"]
        remote_sync_guard [of sample_framework "''best_config.json''" "''best_weight.h5''"
          "ChessModel_init (sample_config False)"
          "\<lparr>fs = sample_files, server = offline_server, ftp_log = []\<rparr>"]
        remote_sync_guard [of sample_framework "''elsewhere.json''" "''best_weight.h5''"
          "(ChessModel_init (sample_config True))\<lparr>model := Some sample_graph\<rparr>"
          "\<lparr>fs = sample_files, server = offline_server, ftp_log = []\<rparr>"]
  by (simp add: sample_config_def sample_resources_def ChessModel_init_def)

text \<open>
  C4 as written fails. With the canonical architecture path and another weight path, \<open>load\<close> runs the whole
  session and writes the retrieved weights to that other path, and \<open>save\<close> starts an
  upload.
\<close>

theorem remote_sync_ignores_weight_path:
  "''other.h5'' \<noteq> model_best_weight_path (cfg_resource (sample_config True))
   \<and> ftp_log (snd (snd (load sample_framework ''best_config.json'' ''other.h5''
        (ChessModel_init (sample_config True),
         \<lparr>fs = Map.empty, server = stale_server, ftp_log = []\<rparr>))))
     = [LOGIN ''ftp.example.org'' ''user'' ''secret'', CWD ''/models'',
        RETR ''model_best_config.json'', RETR ''model_best_weight.h5'', QUIT]
   \<and> fs (snd (snd (load sample_framework ''best_config.json'' ''other.h5''
        (ChessModel_init (sample_config True),
         \<lparr>fs = Map.empty, server = stale_server, ftp_log = []\<rparr>)))) ''other.h5''
     = Some [137, 72, 68, 70, 7, 7]
   \<and> ftp_log (snd (snd (save sample_framework ''best_config.json'' ''other.h5''
        ((ChessModel_init (sample_config True))\<lparr>model := Some sample_graph\<rparr>,
         \<lparr>fs = Map.empty, server = stale_server, ftp_log = []\<rparr>))))
     = [LOGIN ''ftp.example.org'' ''user'' ''secret'', CWD ''/models'',
        STOR ''model_best_config.json'']"
  by (simp add: load_def save_def load_from_server_def save_to_server_def retrbinary_def
        storbinary_def flush_at_start_def Let_def os_path_exists_def json_load_def
        fetch_digest_def sample_defs)

text \<open>
  C5 at a failing input. Both local files hold the sample graph, and \<open>load\<close> returns
  \<open>True\<close> on them when the model is not distributed. With a distributed model and a
  server that is reached but does not hold \<open>model_best_config.json\<close>, the local
  architecture file has been emptied before the retrieval is refused, and \<open>load\<close>
  raises \<open>JSONDecodeError\<close>. It does the same when the server holds the file and the
  connection breaks after two bytes: the local file is left with those two bytes.
\<close>

theorem load_after_failed_retrieval:
  "fst (load sample_framework ''best_config.json'' ''best_weight.h5''
          (ChessModel_init (sample_config False),
           \<lparr>fs = sample_files, server = empty_server, ftp_log = []\<rparr>))
     = Return True
   \<and> fst (load sample_framework ''best_config.json'' ''best_weight.h5''
          (ChessModel_init (sample_config True),
           \<lparr>fs = sample_files, server = empty_server, ftp_log = []\<rparr>))
     = Raise JSONDecodeError
   \<and> fs (snd (snd (load sample_framework ''best_config.json'' ''best_weight.h5''
          (ChessModel_init (sample_config True),
           \<lparr>fs = sample_files, server = empty_server, ftp_log = []\<rparr>))))
        ''best_config.json''
     = Some []
   \<and> fst (load sample_framework ''best_config.json'' ''best_weight.h5''
          (ChessModel_init (sample_config True),
           \<lparr>fs = sample_files, server = flaky_server, ftp_log = []\<rparr>))
     = Raise JSONDecodeError
   \<and> fs (snd (snd (load sample_framework ''best_config.json'' ''best_weight.h5''
          (ChessModel_init (sample_config True),
           \<lparr>fs = sample_files, server = flaky_server, ftp_log = []\<rparr>))))
        ''best_config.json''
     = Some [123, 1]"
  by (simp add: load_def load_from_server_def retrbinary_def Let_def os_path_exists_def
        json_load_def fetch_digest_def sample_defs)







text \<open>
  C8 at every input. \<open>BetterChessModel.build\<close> raises \<open>TypeError\<close> in the first custom
  block, where \<open>pointwise_and_separable\<close> calls the tensor that \<open>pointwise_conv\<close>
  returned; no model is stored.
\<close>

theorem better_build_raises:
  "BetterChessModel_build (BetterChessModel_init cfg) =
     (Raise TypeError, BetterChessModel_init cfg)"
proof -
  have "0 < nat (blocks_count (BetterChessModel_init cfg :: keras_model better_chess_model))"
    by (simp add: BetterChessModel_init_def)
  then show ?thesis
    by (simp add: BetterChessModel_build_def Let_def custom_layers_raise)
qed

text \<open>
  C9. The widths of the four branches of a custom block, as \<open>__init__\<close> sets them and
  \<open>custom_layer\<close> passes them, add up to \<open>self.channels\<close>.
\<close>

theorem channel_budget:
  "conv5_channels (BetterChessModel_init cfg :: 'g better_chess_model)
     + conv15_channels (BetterChessModel_init cfg :: 'g better_chess_model)
     + conv_along_axis_channels (BetterChessModel_init cfg :: 'g better_chess_model)
     + conv_along_axis_channels (BetterChessModel_init cfg :: 'g better_chess_model)
   = channels (BetterChessModel_init cfg :: 'g better_chess_model)"
  by (simp add: BetterChessModel_init_def)

text \<open>
  C10, as the code has it. In a fetch attempt that gets as far as the transfers, each
  local file is opened for writing just before its own retrieval: the architecture file
  first, the weight file only when the architecture retrieval has returned. Afterwards
  the architecture file exists and holds the bytes that arrived, not what it held
  before; the weight file is written, with the bytes that arrived, only if the
  architecture retrieval returned, and is as it was otherwise.
\<close>

theorem fetch_opens_files_in_turn:
  assumes "uses_server (config self) config_path"
      and "session_opens (cfg_resource (config self)) (server w)"
  shows "os_path_exists (fs (snd (snd (load F config_path weight_path (self, w))))) config_path
       \<and> fs (snd (snd (load F config_path weight_path (self, w)))) =
           (if snd (retrbinary (server w) ''model_best_config.json'')
            then (fs w)(config_path \<mapsto> fst (retrbinary (server w) ''model_best_config.json''),
                        weight_path \<mapsto> fst (retrbinary (server w) ''model_best_weight.h5''))
            else (fs w)(config_path \<mapsto> fst (retrbinary (server w) ''model_best_config.json'')))"
  using assms
  by (simp add: load_world load_from_server_opened os_path_exists_def)

theorem fetch_opens_files_in_turn_witness:
  "uses_server (config (ChessModel_init (sample_config True) :: (bytes \<times> bytes) chess_model))
     ''best_config.json''
   \<and> session_opens (cfg_resource (sample_config True)) empty_server
   \<and> fs (snd (snd (load sample_framework ''best_config.json'' ''best_weight.h5''
        (ChessModel_init (sample_config True),
         \<lparr>fs = sample_files, server = empty_server, ftp_log = []\<rparr>))))
     = sample_files(''best_config.json'' \<mapsto> [])
   \<and> session_opens (cfg_resource (sample_config True)) flaky_server
   \<and> fs (snd (snd (load sample_framework ''best_config.json'' ''best_weight.h5''
        (ChessModel_init (sample_config True),
         \<lparr>fs = sample_files, server = flaky_server, ftp_log = []\<rparr>))))
     = sample_files(''best_config.json'' \<mapsto> [123, 1])"
  using fetch_opens_files_in_turn [of "ChessModel_init (sample_config True)"
          "''best_config.json''" "\<lparr>fs = sample_files, server = empty_server, ftp_log = []\<rparr>"
          sample_framework "''best_weight.h5''"]
        fetch_opens_files_in_turn [of "ChessModel_init (sample_config True)"
          "''best_config.json''" "\<lparr>fs = sample_files, server = flaky_server, ftp_log = []\<rparr>"
          sample_framework "''best_weight.h5''"]
  by (simp add: uses_server_def session_opens_def retrbinary_def sample_config_def
        sample_resources_def empty_server_def flaky_server_def stale_server_def
        ChessModel_init_def)

text \<open>
  C10 as written fails. No local file and a server without \<open>model_best_config.json\<close>: the attempt opens the
  architecture file, the retrieval is refused, and the weight file is never opened.
\<close>

theorem fetch_leaves_weight_file_missing:
  "ftp_log (snd (snd (load sample_framework ''best_config.json'' ''best_weight.h5''
        (ChessModel_init (sample_config True),
         \<lparr>fs = Map.empty, server = empty_server, ftp_log = []\<rparr>))))
     = [LOGIN ''ftp.example.org'' ''user'' ''secret'', CWD ''/models'',
        RETR ''model_best_config.json'']
   \<and> os_path_exists (fs (snd (snd (load sample_framework ''best_config.json'' ''best_weight.h5''
        (ChessModel_init (sample_config True),
         \<lparr>fs = Map.empty, server = empty_server, ftp_log = []\<rparr>))))) ''best_config.json''
   \<and> \<not> os_path_exists (fs (snd (snd (load sample_framework ''best_config.json'' ''best_weight.h5''
        (ChessModel_init (sample_config True),
         \<lparr>fs = Map.empty, server = empty_server, ftp_log = []\<rparr>))))) ''best_weight.h5''"
  by (simp add: load_def load_from_server_def retrbinary_def Let_def os_path_exists_def
        json_load_def fetch_digest_def sample_defs)

end
